theory Spec2Isabelle
  imports Main "HOL-Library.AList"
begin

section \<open>JavaScript values\<close>

text \<open>
  The wrapper (src/wrapper.js) stores whatever the caller hands to it, so its fields hold
  arbitrary JavaScript values. Function values are identified by what they do:
  \<^item> \<open>ConsoleLog\<close> is the closure \<^verbatim>\<open>text => console.log(text)\<close>;
  \<^item> \<open>Noop\<close> is \<^verbatim>\<open>() => {}\<close> and \<^verbatim>\<open>new Function\<close>;
  \<^item> \<open>SelfPrint\<close> is the closure \<^verbatim>\<open>text => self.print(text)\<close> that \<open>print\<close> installs
    on the engine binding; it reads the variable \<open>self\<close> when it is called;
  \<^item> \<open>Method n\<close> is the closure exported under the name \<open>n\<close>;
  \<^item> \<open>UserFn i\<close> is the \<open>i\<close>-th function supplied by a caller.

  Numbers are the integer-valued ones and \<open>NaN\<close>; an object is the list of its own
  enumerable properties in property order (distinct names, array indices first); its
  prototype is \<^verbatim>\<open>Object.prototype\<close>.
\<close>

datatype fn = ConsoleLog | Noop | SelfPrint | Method string | UserFn nat

datatype jsval =
    Undefined
  | Null
  | Bool bool
  | Num int
  | NaN
  | Str string
  | Fun fn
  | Arr "jsval list"
  | Obj "(string \<times> jsval) list"

text \<open>ToBoolean: what \<^verbatim>\<open>||\<close> and \<^verbatim>\<open>? :\<close> test.\<close>

fun truthy :: "jsval \<Rightarrow> bool" where
  "truthy Undefined = False"
| "truthy Null = False"
| "truthy (Bool b) = b"
| "truthy (Num n) = (n \<noteq> 0)"
| "truthy NaN = False"
| "truthy (Str s) = (s \<noteq> [])"
| "truthy (Fun f) = True"
| "truthy (Arr xs) = True"
| "truthy (Obj kvs) = True"

text \<open>\<^verbatim>\<open>a || b\<close>\<close>

definition js_or :: "jsval \<Rightarrow> jsval \<Rightarrow> jsval" where
  "js_or a b = (if truthy a then a else b)"

text \<open>A default parameter \<^verbatim>\<open>(x = d)\<close>: the default is taken exactly when the argument is
  \<^verbatim>\<open>undefined\<close>.\<close>

definition default_param :: "jsval \<Rightarrow> jsval \<Rightarrow> jsval" where
  "default_param x d = (if x = Undefined then d else x)"

text \<open>Reading a property of a plain object: \<^verbatim>\<open>undefined\<close> when the object has none.\<close>

definition get_prop :: "(string \<times> jsval) list \<Rightarrow> string \<Rightarrow> jsval" where
  "get_prop obj k = (case map_of obj k of None \<Rightarrow> Undefined | Some v \<Rightarrow> v)"

subsection \<open>Number and string conversion\<close>

fun string_of_nat :: "nat \<Rightarrow> string" where
  "string_of_nat n =
     (if n < 10 then [char_of (48 + n)]
      else string_of_nat (n div 10) @ [char_of (48 + n mod 10)])"

declare string_of_nat.simps [simp del]

definition string_of_int :: "int \<Rightarrow> string" where
  "string_of_int i = (if i < 0 then ''-'' @ string_of_nat (nat (- i)) else string_of_nat (nat i))"

definition hexdigit :: "nat \<Rightarrow> char" where
  "hexdigit n = (if n < 10 then char_of (48 + n) else char_of (87 + n))"

text \<open>QuoteJSONString, one character at a time.\<close>

definition json_escape :: "char \<Rightarrow> string" where
  "json_escape c =
     (let n = (of_char c :: nat) in
      if n = 34 then [CHR 0x5C, CHR 0x22]
      else if n = 92 then [CHR 0x5C, CHR 0x5C]
      else if n = 8 then [CHR 0x5C, CHR ''b'']
      else if n = 9 then [CHR 0x5C, CHR ''t'']
      else if n = 10 then [CHR 0x5C, CHR ''n'']
      else if n = 12 then [CHR 0x5C, CHR ''f'']
      else if n = 13 then [CHR 0x5C, CHR ''r'']
      else if n < 32 then [CHR 0x5C, CHR ''u'', CHR ''0'', CHR ''0'', hexdigit (n div 16), hexdigit (n mod 16)]
      else [c])"

definition json_quote :: "string \<Rightarrow> string" where
  "json_quote s = [CHR 0x22] @ concat (map json_escape s) @ [CHR 0x22]"

fun join :: "string list \<Rightarrow> string" where
  "join [] = []"
| "join [x] = x"
| "join (x # y # ys) = x @ '','' @ join (y # ys)"

subsection \<open>JSON.stringify\<close>

text \<open>
  SerializeJSONProperty: \<open>None\<close> is the result \<^verbatim>\<open>undefined\<close>. An array element that
  serializes to \<^verbatim>\<open>undefined\<close> is written \<^verbatim>\<open>null\<close>; an object property that does is
  left out.

  An object whose \<^verbatim>\<open>toJSON\<close> property is a function is not serialized itself: the
  function is called and its result is serialized in the object's place. \<open>ConsoleLog\<close> and
  \<open>Noop\<close> return \<^verbatim>\<open>undefined\<close>, so the result is \<^verbatim>\<open>undefined\<close>. What another function
  returns is not in the model, which takes \<^verbatim>\<open>undefined\<close> there too; \<open>plain_json\<close> below
  marks the values whose text does not rest on that. A number is written with all its
  digits, as JavaScript does for the safe integers (up to \<open>2^53 - 1\<close> in absolute value).
\<close>

fun callable :: "jsval \<Rightarrow> bool" where
  "callable (Fun f) = True"
| "callable v = False"

fun serialize :: "jsval \<Rightarrow> string option" where
  "serialize Undefined = None"
| "serialize Null = Some ''null''"
| "serialize (Bool b) = Some (if b then ''true'' else ''false'')"
| "serialize (Num n) = Some (string_of_int n)"
| "serialize NaN = Some ''null''"
| "serialize (Str s) = Some (json_quote s)"
| "serialize (Fun f) = None"
| "serialize (Arr xs) =
     Some (''['' @ join (map (\<lambda>x. case serialize x of None \<Rightarrow> ''null'' | Some t \<Rightarrow> t) xs) @ '']'')"
| "serialize (Obj kvs) =
     (if callable (get_prop kvs ''toJSON'') then None
      else Some (''{'' @ join (concat (map (\<lambda>p. case serialize (snd p) of None \<Rightarrow> []
                                                | Some t \<Rightarrow> [json_quote (fst p) @ '':'' @ t]) kvs)) @ ''}''))"

definition JSON_stringify :: "jsval \<Rightarrow> jsval" where
  "JSON_stringify v = (case serialize v of None \<Rightarrow> Undefined | Some t \<Rightarrow> Str t)"

subsection \<open>Object.assign\<close>

text \<open>The own enumerable properties of a source value: a string and an array have their
  indices, the other primitives have none, and \<^verbatim>\<open>null\<close> and \<^verbatim>\<open>undefined\<close> are skipped.
  Each property is written to the target as an ordinary own property, a new one after
  those the target has: an own property named \<^verbatim>\<open>__proto__\<close>, which JavaScript turns into
  the target's prototype, and the place JavaScript gives to array indices among the
  properties are outside the model.\<close>

fun own_props :: "jsval \<Rightarrow> (string \<times> jsval) list" where
  "own_props (Obj kvs) = kvs"
| "own_props (Arr xs) = zip (map string_of_nat [0..<length xs]) xs"
| "own_props (Str s) = zip (map string_of_nat [0..<length s]) (map (\<lambda>c. Str [c]) s)"
| "own_props v = []"

definition Object_assign :: "(string \<times> jsval) list \<Rightarrow> jsval \<Rightarrow> (string \<times> jsval) list" where
  "Object_assign target source = fold (\<lambda>p t. AList.update (fst p) (snd p) t) (own_props source) target"

section \<open>The module state\<close>

text \<open>
  One call \<^verbatim>\<open>C.ccall(ident, returnType, argTypes, args)\<close> across the foreign-call
  boundary. The engine is opaque: the model records the calls that reach it.
\<close>

datatype ccall = Ccall (ccall_ident: string) (ccall_return: string)
                       (ccall_types: "string list") (ccall_args: "jsval list")

text \<open>
  The closure variable \<open>self\<close> (its eight fields and \<open>self.options\<close>; a field that the
  object does not have reads \<^verbatim>\<open>undefined\<close>), the three slots of the engine binding \<open>C\<close>
  that the wrapper writes, and the foreign calls issued so far. The state changes through
  the exported methods only: \<^verbatim>\<open>__debug\<close>, which hands \<open>self\<close> out, is taken as a read.
\<close>

record state =
  self_zencode :: jsval
  self_keys :: jsval
  self_conf :: jsval
  self_data :: jsval
  self_print :: jsval
  self_success :: jsval
  self_error :: jsval
  self_verbosity :: jsval
  self_options :: "(string \<times> jsval) list"
  C_print :: jsval
  C_exec_ok :: jsval
  C_exec_error :: jsval
  ccalls :: "ccall list"

definition C_ccall :: "string \<Rightarrow> string \<Rightarrow> string list \<Rightarrow> jsval list \<Rightarrow> state \<Rightarrow> state" where
  "C_ccall ident ret types args st = st\<lparr>ccalls := ccalls st @ [Ccall ident ret types args]\<rparr>"

text \<open>wrapper.js, lines 21-28. The last four parameters have defaults; the first has none.\<close>

definition zenroomExec :: "jsval \<Rightarrow> jsval \<Rightarrow> jsval \<Rightarrow> jsval \<Rightarrow> jsval \<Rightarrow> state \<Rightarrow> state" where
  "zenroomExec zencode_arg conf_arg keys_arg data_arg verbosity_arg st =
     (let conf' = default_param conf_arg Null;
          keys' = default_param keys_arg Null;
          data' = default_param data_arg Null;
          verbosity' = default_param verbosity_arg (Num 1)
      in C_ccall ''zenroom_exec'' ''number''
           [''string'', ''string'', ''string'', ''string'', ''number'']
           [zencode_arg, conf', keys', data', verbosity'] st)"

section \<open>The builder methods\<close>

text \<open>
  Every method takes its receiver \<open>this\<close> and returns it with the new state. The calls
  that \<open>init\<close> and \<open>__setup\<close> make are plain function calls, whose receiver is
  \<^verbatim>\<open>undefined\<close> and whose result is dropped.
\<close>

definition zencode :: "jsval \<Rightarrow> jsval \<Rightarrow> state \<Rightarrow> jsval \<times> state" where
  "zencode this v st = (this, st\<lparr>self_zencode := v\<rparr>)"

definition keys :: "jsval \<Rightarrow> jsval \<Rightarrow> state \<Rightarrow> jsval \<times> state" where
  "keys this v st = (this, st\<lparr>self_keys := (if truthy v then JSON_stringify v else Null)\<rparr>)"

definition conf :: "jsval \<Rightarrow> jsval \<Rightarrow> state \<Rightarrow> jsval \<times> state" where
  "conf this v st = (this, st\<lparr>self_conf := v\<rparr>)"

definition data :: "jsval \<Rightarrow> jsval \<Rightarrow> state \<Rightarrow> jsval \<times> state" where
  "data this v st = (this, st\<lparr>self_data := v\<rparr>)"

definition print :: "jsval \<Rightarrow> jsval \<Rightarrow> state \<Rightarrow> jsval \<times> state" where
  "print this printFunction st = (this, st\<lparr>self_print := printFunction, C_print := Fun SelfPrint\<rparr>)"

definition success :: "jsval \<Rightarrow> jsval \<Rightarrow> state \<Rightarrow> jsval \<times> state" where
  "success this success_callback st =
     (this, st\<lparr>self_success := success_callback, C_exec_ok := success_callback\<rparr>)"

definition error :: "jsval \<Rightarrow> jsval \<Rightarrow> state \<Rightarrow> jsval \<times> state" where
  "error this error_callback st =
     (this, st\<lparr>self_error := error_callback, C_exec_error := error_callback\<rparr>)"

definition verbosity :: "jsval \<Rightarrow> jsval \<Rightarrow> state \<Rightarrow> jsval \<times> state" where
  "verbosity this v st = (this, st\<lparr>self_verbosity := v\<rparr>)"

definition exec :: "jsval \<Rightarrow> state \<Rightarrow> jsval \<times> state" where
  "exec this st =
     (this, zenroomExec (self_zencode st) (self_conf st) (self_keys st) (self_data st)
              (self_verbosity st) st)"

text \<open>
  wrapper.js, lines 304-318. \<^verbatim>\<open>Object.assign\<close> returns its target, an object, so the
  alternative \<^verbatim>\<open>|| {}\<close> is never taken.
\<close>

definition init :: "jsval \<Rightarrow> jsval \<Rightarrow> state \<Rightarrow> jsval \<times> state" where
  "init this options st =
     (let st0 = st\<lparr>self_options := Object_assign (self_options st) options\<rparr>;
          st1 = snd (zencode Undefined (js_or (get_prop (self_options st0) ''zencode'') (Str [])) st0);
          st2 = snd (keys Undefined (js_or (get_prop (self_options st1) ''keys'') Null) st1);
          st3 = snd (conf Undefined (js_or (get_prop (self_options st2) ''conf'') Null) st2);
          st4 = snd (data Undefined (js_or (get_prop (self_options st3) ''data'') Null) st3);
          st5 = snd (print Undefined (js_or (get_prop (self_options st4) ''print'') (Fun ConsoleLog)) st4);
          st6 = snd (success Undefined (js_or (get_prop (self_options st5) ''success'') (Fun Noop)) st5);
          st7 = snd (error Undefined (js_or (get_prop (self_options st6) ''error'') (Fun Noop)) st6);
          st8 = snd (verbosity Undefined (js_or (get_prop (self_options st7) ''verbosity'') (Num 1)) st7)
      in (this, st8))"

text \<open>\<^verbatim>\<open>__setup\<close>, wrapper.js, lines 320-324.\<close>

definition private_setup :: "state \<Rightarrow> state" where
  "private_setup st =
     (let st1 = snd (print Undefined (js_or (self_print st) (Fun ConsoleLog)) st);
          st2 = snd (success Undefined (js_or (self_success st1) (Fun Noop)) st1);
          st3 = snd (error Undefined (js_or (self_error st2) (Fun Noop)) st2)
      in st3)"

text \<open>wrapper.js, lines 345-350: \<^verbatim>\<open>self = {}\<close> leaves every field absent.\<close>

definition reset :: "jsval \<Rightarrow> state \<Rightarrow> jsval \<times> state" where
  "reset this st =
     (let st1 = st\<lparr>self_zencode := Undefined, self_keys := Undefined, self_conf := Undefined,
                    self_data := Undefined, self_print := Undefined, self_success := Undefined,
                    self_error := Undefined, self_verbosity := Undefined\<rparr>;
          st2 = st1\<lparr>self_options := []\<rparr>;
          st3 = private_setup st2
      in (this, st3))"

text \<open>
  The module body, lines 31-33 and 352: \<open>self\<close> and its options are empty objects and
  \<open>__setup\<close> has run. What the engine binding held in its three slots before is not
  the wrapper's; \<open>__setup\<close> overwrites all three.
\<close>

definition loaded :: state where
  "loaded = private_setup
     \<lparr>self_zencode = Undefined, self_keys = Undefined, self_conf = Undefined,
      self_data = Undefined, self_print = Undefined, self_success = Undefined,
      self_error = Undefined, self_verbosity = Undefined, self_options = [],
      C_print = Undefined, C_exec_ok = Undefined, C_exec_error = Undefined, ccalls = []\<rparr>"

text \<open>The exported object, lines 354-367.\<close>

definition zenroom :: jsval where
  "zenroom = Obj (map (\<lambda>n. (n, Fun (Method n)))
     [''zencode'', ''keys'', ''conf'', ''data'', ''print'', ''success'', ''verbosity'',
      ''exec'', ''error'', ''init'', ''reset'', ''__debug''])"

section \<open>Chains of calls\<close>

datatype call =
    Zencode jsval | Keys jsval | Conf jsval | Data jsval
  | Print jsval | Success jsval | Error jsval | Verbosity jsval
  | Exec | Init jsval | Reset

fun invoke :: "call \<Rightarrow> jsval \<Rightarrow> state \<Rightarrow> jsval \<times> state" where
  "invoke (Zencode v) this st = zencode this v st"
| "invoke (Keys v) this st = keys this v st"
| "invoke (Conf v) this st = conf this v st"
| "invoke (Data v) this st = data this v st"
| "invoke (Print v) this st = print this v st"
| "invoke (Success v) this st = success this v st"
| "invoke (Error v) this st = error this v st"
| "invoke (Verbosity v) this st = verbosity this v st"
| "invoke Exec this st = exec this st"
| "invoke (Init v) this st = init this v st"
| "invoke Reset this st = reset this st"

text \<open>A chain \<^verbatim>\<open>h.a().b()...\<close>: each call's receiver is what the one before returned.\<close>

fun chain :: "call list \<Rightarrow> jsval \<Rightarrow> state \<Rightarrow> jsval \<times> state" where
  "chain [] this st = (this, st)"
| "chain (c # cs) this st = (case invoke c this st of (this', st') \<Rightarrow> chain cs this' st')"

text \<open>The argument arrays of the foreign calls issued so far, oldest first.\<close>

definition sent :: "state \<Rightarrow> jsval list list" where
  "sent st = map ccall_args (ccalls st)"

text \<open>
  What the engine ends up running when it calls a slot of its binding: the wrapper
  closure in \<open>C.print\<close> calls whatever \<open>self.print\<close> is at that moment.
\<close>

datatype hook_kind = Output | Succeeded | Failed

fun engine_invokes :: "hook_kind \<Rightarrow> state \<Rightarrow> jsval" where
  "engine_invokes Output st = (if C_print st = Fun SelfPrint then self_print st else C_print st)"
| "engine_invokes Succeeded st = C_exec_ok st"
| "engine_invokes Failed st = C_exec_error st"

section \<open>Vocabulary of the properties\<close>


text \<open>The argument of a call to the setter of one payload field, and the argument of the
  last such call in a chain.\<close>

fun zencode_arg :: "call \<Rightarrow> jsval option" where
  "zencode_arg (Zencode v) = Some v"
| "zencode_arg c = None"

fun keys_arg :: "call \<Rightarrow> jsval option" where
  "keys_arg (Keys v) = Some v"
| "keys_arg c = None"

fun conf_arg :: "call \<Rightarrow> jsval option" where
  "conf_arg (Conf v) = Some v"
| "conf_arg c = None"

fun data_arg :: "call \<Rightarrow> jsval option" where
  "data_arg (Data v) = Some v"
| "data_arg c = None"

fun verbosity_arg :: "call \<Rightarrow> jsval option" where
  "verbosity_arg (Verbosity v) = Some v"
| "verbosity_arg c = None"











lemmas setter_defs = zencode_def keys_def conf_def data_def print_def success_def error_def
  verbosity_def

lemmas bridge_defs = exec_def zenroomExec_def C_ccall_def

section \<open>Basic facts\<close>

lemma invoke_fst: "fst (invoke c this st) = this"
  by (cases c) (simp_all add: setter_defs exec_def init_def reset_def Let_def)

lemma invoke_snd: "snd (invoke c this st) = snd (invoke c this' st)"
  by (cases c) (simp_all add: setter_defs exec_def init_def reset_def Let_def)

lemma chain_Cons [simp]: "chain (c # cs) this st = chain cs this (snd (invoke c this st))"
  by (simp add: case_prod_beta invoke_fst)

declare chain.simps(2) [simp del]

lemma chain_fst: "fst (chain cs this st) = this"
  by (induction cs arbitrary: st) simp_all



text \<open>The compound operations, written as one update of the state.\<close>

lemma private_setup_eq:
  "private_setup st =
     st\<lparr>self_print := js_or (self_print st) (Fun ConsoleLog), C_print := Fun SelfPrint,
        self_success := js_or (self_success st) (Fun Noop), C_exec_ok := js_or (self_success st) (Fun Noop),
        self_error := js_or (self_error st) (Fun Noop), C_exec_error := js_or (self_error st) (Fun Noop)\<rparr>"
  by (simp add: private_setup_def print_def success_def error_def)

lemma reset_eq:
  "snd (reset this st) =
     st\<lparr>self_zencode := Undefined, self_keys := Undefined, self_conf := Undefined,
        self_data := Undefined, self_print := Fun ConsoleLog, self_success := Fun Noop,
        self_error := Fun Noop, self_verbosity := Undefined, self_options := [],
        C_print := Fun SelfPrint, C_exec_ok := Fun Noop, C_exec_error := Fun Noop\<rparr>"
  by (simp add: reset_def private_setup_eq js_or_def)

lemma init_eq:
  "snd (init this options st) =
     (let store = Object_assign (self_options st) options in
      st\<lparr>self_options := store,
         self_zencode := js_or (get_prop store ''zencode'') (Str []),
         self_keys := (if truthy (js_or (get_prop store ''keys'') Null)
                       then JSON_stringify (js_or (get_prop store ''keys'') Null) else Null),
         self_conf := js_or (get_prop store ''conf'') Null,
         self_data := js_or (get_prop store ''data'') Null,
         self_print := js_or (get_prop store ''print'') (Fun ConsoleLog),
         C_print := Fun SelfPrint,
         self_success := js_or (get_prop store ''success'') (Fun Noop),
         C_exec_ok := js_or (get_prop store ''success'') (Fun Noop),
         self_error := js_or (get_prop store ''error'') (Fun Noop),
         C_exec_error := js_or (get_prop store ''error'') (Fun Noop),
         self_verbosity := js_or (get_prop store ''verbosity'') (Num 1)\<rparr>)"
  by (simp add: init_def Let_def setter_defs)

lemma exec_eq:
  "snd (exec this st) = st\<lparr>ccalls := ccalls st @
      [Ccall ''zenroom_exec'' ''number'' [''string'', ''string'', ''string'', ''string'', ''number'']
         [self_zencode st, default_param (self_conf st) Null, default_param (self_keys st) Null,
          default_param (self_data st) Null, default_param (self_verbosity st) (Num 1)]]\<rparr>"
  by (simp add: bridge_defs Let_def)

lemma sent_exec:
  "sent (snd (exec this st)) = sent st @
         [[self_zencode st, default_param (self_conf st) Null, default_param (self_keys st) Null,
          default_param (self_data st) Null, default_param (self_verbosity st) (Num 1)]]"
  by (simp add: exec_eq sent_def)



lemma truthy_js_or_Null: "truthy (js_or v Null) = truthy v"
  by (simp add: js_or_def)

lemma init_payload:
  "self_options (snd (init this options st)) = Object_assign (self_options st) options"
  "self_zencode (snd (init this options st)) =
     js_or (get_prop (Object_assign (self_options st) options) ''zencode'') (Str [])"
  "self_keys (snd (init this options st)) =
     (if truthy (get_prop (Object_assign (self_options st) options) ''keys'')
      then JSON_stringify (get_prop (Object_assign (self_options st) options) ''keys'') else Null)"
  "self_conf (snd (init this options st)) =
     js_or (get_prop (Object_assign (self_options st) options) ''conf'') Null"
  "self_data (snd (init this options st)) =
     js_or (get_prop (Object_assign (self_options st) options) ''data'') Null"
  "self_verbosity (snd (init this options st)) =
     js_or (get_prop (Object_assign (self_options st) options) ''verbosity'') (Num 1)"
  by (simp_all add: init_eq Let_def truthy_js_or_Null) (simp add: js_or_def)


lemma reset_payload:
  "self_options (snd (reset this st)) = []"
  "self_zencode (snd (reset this st)) = Undefined"
  "self_keys (snd (reset this st)) = Undefined"
  "self_conf (snd (reset this st)) = Undefined"
  "self_data (snd (reset this st)) = Undefined"
  "self_verbosity (snd (reset this st)) = Undefined"
  by (simp_all add: reset_eq)

lemma Object_assign_empty: "Object_assign target (Obj []) = target"
  by (simp add: Object_assign_def)

lemma loaded_eq:
  "loaded = \<lparr>self_zencode = Undefined, self_keys = Undefined, self_conf = Undefined,
      self_data = Undefined, self_print = Fun ConsoleLog, self_success = Fun Noop,
      self_error = Fun Noop, self_verbosity = Undefined, self_options = [],
      C_print = Fun SelfPrint, C_exec_ok = Fun Noop, C_exec_error = Fun Noop, ccalls = []\<rparr>"
  by (simp add: loaded_def private_setup_eq js_or_def)


subsection \<open>Merging options\<close>




subsection \<open>Chains of setters\<close>




subsection \<open>Calls that leave a hook alone\<close>



subsection \<open>The keys stay text\<close>








section \<open>The bridge\<close>

text \<open>
  Claim C8. \<open>exec\<close> returns its receiver and issues exactly one foreign call,
  \<open>zenroom_exec\<close> with the script, configuration, keys, data and verbosity of the state in
  this order (a configuration, keys, data or verbosity that is \<^verbatim>\<open>undefined\<close> goes as its
  parameter default). Nothing else of the state changes, so a second \<open>exec\<close> sends the
  same five values again.
\<close>

theorem exec_one_call:
  "fst (exec this st) = this \<and>
   snd (exec this st) = st\<lparr>ccalls := ccalls st @
      [Ccall ''zenroom_exec'' ''number'' [''string'', ''string'', ''string'', ''string'', ''number'']
         [self_zencode st, default_param (self_conf st) Null, default_param (self_keys st) Null,
          default_param (self_data st) Null, default_param (self_verbosity st) (Num 1)]]\<rparr> \<and>
   sent (snd (chain [Exec, Exec] this st)) = sent st @
      [[self_zencode st, default_param (self_conf st) Null, default_param (self_keys st) Null,
        default_param (self_data st) Null, default_param (self_verbosity st) (Num 1)],
       [self_zencode st, default_param (self_conf st) Null, default_param (self_keys st) Null,
        default_param (self_data st) Null, default_param (self_verbosity st) (Num 1)]]"
proof -
  have "fst (exec this st) = this"
    by (simp add: exec_def)
  moreover have "sent (snd (exec this (snd (exec this st)))) = sent st @
      [[self_zencode st, default_param (self_conf st) Null, default_param (self_keys st) Null,
        default_param (self_data st) Null, default_param (self_verbosity st) (Num 1)],
       [self_zencode st, default_param (self_conf st) Null, default_param (self_keys st) Null,
        default_param (self_data st) Null, default_param (self_verbosity st) (Num 1)]]"
    by (simp add: sent_exec) (simp add: exec_eq)
  ultimately show ?thesis
    by (simp add: exec_eq)
qed

text \<open>
  Claim C1, as amended. When the configuration, the keys, the data or the verbosity of the
  state is unset (\<^verbatim>\<open>undefined\<close>) at \<open>exec\<close>, the value passed for it is its default:
  \<^verbatim>\<open>null\<close> for the first three, 1 for the verbosity. None of the four is ever passed as
  \<^verbatim>\<open>undefined\<close>.
\<close>

theorem unset_fields_cross_as_defaults:
  "(self_conf st = Undefined \<longrightarrow> last (sent (snd (exec this st))) ! 1 = Null) \<and>
   (self_keys st = Undefined \<longrightarrow> last (sent (snd (exec this st))) ! 2 = Null) \<and>
   (self_data st = Undefined \<longrightarrow> last (sent (snd (exec this st))) ! 3 = Null) \<and>
   (self_verbosity st = Undefined \<longrightarrow> last (sent (snd (exec this st))) ! 4 = Num 1) \<and>
   length (last (sent (snd (exec this st)))) = 5 \<and>
   (\<forall>i \<in> {1, 2, 3, 4}. last (sent (snd (exec this st))) ! i \<noteq> Undefined)"
  by (simp add: sent_exec default_param_def)

theorem unset_fields_cross_as_defaults_witness:
  "self_conf loaded = Undefined \<and> self_keys loaded = Undefined \<and> self_data loaded = Undefined \<and>
   self_verbosity loaded = Undefined \<and>
   drop 1 (last (sent (snd (exec zenroom loaded)))) = [Null, Null, Null, Num 1]"
  using unset_fields_cross_as_defaults [of loaded zenroom]
  by (simp add: sent_exec default_param_def) (simp add: loaded_eq)

text \<open>
  Claim C1 as stated fails for the script: \<open>zenroomExec\<close> gives its first parameter no
  default, so on the freshly loaded module, where no script was ever set, \<open>exec\<close> passes
  \<^verbatim>\<open>undefined\<close> and not the empty string.
\<close>

theorem unset_script_crosses_undefined:
  "self_zencode loaded = Undefined \<and>
   sent (snd (exec zenroom loaded)) = [[Undefined, Null, Null, Null, Num 1]] \<and>
   last (sent (snd (exec zenroom loaded))) ! 0 \<noteq> Str []"
  by code_simp

section \<open>Reset\<close>

text \<open>
  Claim C3. After \<open>reset\<close>, whatever the state was, the five payload fields are cleared
  (absent from \<open>self\<close>), the three hooks are the factory defaults (console output, no-op,
  no-op), and the engine binding runs these defaults.
\<close>

theorem reset_restores_defaults:
  "self_zencode (snd (reset this st)) = Undefined \<and>
   self_conf (snd (reset this st)) = Undefined \<and>
   self_keys (snd (reset this st)) = Undefined \<and>
   self_data (snd (reset this st)) = Undefined \<and>
   self_verbosity (snd (reset this st)) = Undefined \<and>
   self_print (snd (reset this st)) = Fun ConsoleLog \<and>
   self_success (snd (reset this st)) = Fun Noop \<and>
   self_error (snd (reset this st)) = Fun Noop \<and>
   engine_invokes Output (snd (reset this st)) = Fun ConsoleLog \<and>
   engine_invokes Succeeded (snd (reset this st)) = Fun Noop \<and>
   engine_invokes Failed (snd (reset this st)) = Fun Noop"
  by (simp add: reset_eq)

text \<open>
  Claim C7. \<open>reset\<close> is idempotent: a second \<open>reset\<close> right after the first leaves the
  whole state (the fields of \<open>self\<close>, the options store, the slots of the engine binding)
  as the first left it.
\<close>

theorem reset_idempotent:
  "snd (reset this' (snd (reset this st))) = snd (reset this st)"
  by (simp add: reset_eq)


section \<open>Bulk initialisation\<close>

text \<open>
  Claim C2, as amended. When the options store holds no truthy configuration, keys, data or
  verbosity (as on the freshly loaded module and after \<open>reset\<close>), \<open>init({})\<close> followed by
  \<open>exec\<close> and \<open>reset\<close> followed by \<open>exec\<close> pass the same configuration, keys, data and
  verbosity: \<^verbatim>\<open>null\<close>, \<^verbatim>\<open>null\<close>, \<^verbatim>\<open>null\<close> and 1.
\<close>

theorem init_empty_agrees_with_reset:
  assumes "\<not> truthy (get_prop (self_options st) ''conf'')"
    and "\<not> truthy (get_prop (self_options st) ''keys'')"
    and "\<not> truthy (get_prop (self_options st) ''data'')"
    and "\<not> truthy (get_prop (self_options st) ''verbosity'')"
  shows "drop 1 (last (sent (snd (chain [Init (Obj []), Exec] this st)))) = [Null, Null, Null, Num 1] \<and>
         drop 1 (last (sent (snd (chain [Reset, Exec] this st)))) = [Null, Null, Null, Num 1]"
  using assms
  by (simp add: sent_exec init_payload reset_payload Object_assign_empty js_or_def default_param_def)

theorem init_empty_agrees_with_reset_witness:
  "\<not> truthy (get_prop (self_options loaded) ''conf'') \<and>
   \<not> truthy (get_prop (self_options loaded) ''keys'') \<and>
   \<not> truthy (get_prop (self_options loaded) ''data'') \<and>
   \<not> truthy (get_prop (self_options loaded) ''verbosity'') \<and>
   drop 1 (last (sent (snd (chain [Init (Obj []), Exec] zenroom loaded)))) = [Null, Null, Null, Num 1] \<and>
   drop 1 (last (sent (snd (chain [Reset, Exec] zenroom loaded)))) = [Null, Null, Null, Num 1]"
  using init_empty_agrees_with_reset [of loaded zenroom]
  by (simp add: loaded_eq get_prop_def)

text \<open>
  Claim C2 as stated fails. \<open>init({})\<close> re-derives the state from the options store, which
  keeps what earlier \<open>init\<close> calls put there, and it sets the script to the empty string,
  while \<open>reset\<close> leaves the script unset: after \<open>init({conf: 'umm'})\<close> the two chains send
  different scripts and different configurations.
\<close>

theorem init_empty_differs_from_reset:
  "sent (snd (chain [Init (Obj [(''conf'', Str ''umm'')]), Init (Obj []), Exec] zenroom loaded))
     = [[Str [], Str ''umm'', Null, Null, Num 1]] \<and>
   sent (snd (chain [Init (Obj [(''conf'', Str ''umm'')]), Reset, Exec] zenroom loaded))
     = [[Undefined, Null, Null, Null, Num 1]] \<and>
   sent (snd (chain [Init (Obj [(''conf'', Str ''umm'')]), Init (Obj []), Exec] zenroom loaded))
     \<noteq> sent (snd (chain [Init (Obj [(''conf'', Str ''umm'')]), Reset, Exec] zenroom loaded))"
  by code_simp



section \<open>The setters\<close>







section \<open>The hook registry\<close>



end
